theory Spec2Isabelle
  imports Main "HOL-Library.AList"
begin

section \<open>Python values and dictionaries\<close>

text \<open>
  The values that travel through the client: JSON-like Python objects. A \<open>dict\<close> keeps
  insertion order, so it is an association list; \<open>d[k] = v\<close> replaces the value of an
  existing key in place and appends a new key at the end, which is \<open>AList.update\<close>.
  Floats do not occur in any property below and are left out.
\<close>

datatype pyval =
    PNone
  | PBool bool
  | PInt int
  | PStr string
  | PList "pyval list"
  | PDict "(string \<times> pyval) list"

type_synonym pydict = "(string \<times> pyval) list"

definition dict_set :: "pydict \<Rightarrow> string \<Rightarrow> pyval \<Rightarrow> pydict" where
  "dict_set d k v = AList.update k v d"

definition dict_update :: "pydict \<Rightarrow> pydict \<Rightarrow> pydict" where
  "dict_update d other = fold (\<lambda>(k, v) acc. dict_set acc k v) other d"

definition dict_get :: "pydict \<Rightarrow> string \<Rightarrow> pyval option" where
  "dict_get d k = map_of d k"

definition dict_keys :: "pydict \<Rightarrow> string list" where
  "dict_keys d = map fst d"

text \<open>A Python dict has each key once.\<close>

definition is_dict :: "pydict \<Rightarrow> bool" where
  "is_dict d = distinct (dict_keys d)"

text \<open>
  Truthiness of an optional string or an optional dict, as \<open>if x:\<close> and \<open>x or y\<close> test it:
  \<open>None\<close> is false, and so is the empty string and the empty dict.
\<close>

definition truthy :: "'a list option \<Rightarrow> bool" where
  "truthy x = (case x of None \<Rightarrow> False | Some v \<Rightarrow> v \<noteq> [])"

definition py_or :: "'a list option \<Rightarrow> 'a list \<Rightarrow> 'a list" where
  "py_or x y = (if truthy x then the x else y)"

definition rstrip :: "char \<Rightarrow> string \<Rightarrow> string" where
  "rstrip ch s = rev (dropWhile (\<lambda>x. x = ch) (rev s))"

section \<open>Naive and aware datetimes\<close>

text \<open>
  A \<open>datetime\<close> object stores its calendar fields; \<open>tzoffset\<close> is the UTC offset of
  an aware datetime, in whole minutes, and \<open>None\<close> for a naive one such as \<open>utcnow\<close>
  returns. Python checks the ranges of the fields when the object is built, which is
  \<open>valid_datetime\<close>.
\<close>

record datetime =
  year :: nat
  month :: nat
  day :: nat
  hour :: nat
  minute :: nat
  second :: nat
  microsecond :: nat
  tzoffset :: "int option"

definition is_leap :: "nat \<Rightarrow> bool" where
  "is_leap y = (y mod 4 = 0 \<and> (y mod 100 \<noteq> 0 \<or> y mod 400 = 0))"

definition days_in_month :: "nat \<Rightarrow> nat \<Rightarrow> nat" where
  "days_in_month y m =
     (if m = 2 then (if is_leap y then 29 else 28)
      else if m = 4 \<or> m = 6 \<or> m = 9 \<or> m = 11 then 30 else 31)"


definition digit_char :: "nat \<Rightarrow> char" where
  "digit_char n = ''0123456789'' ! (n mod 10)"

text \<open>
  \<open>zpad n k\<close> is \<open>"%0nd" % k\<close> for \<open>k < 10 ^ n\<close>, which the field ranges guarantee:
  the last \<open>n\<close> decimal digits of \<open>k\<close>.
\<close>

primrec zpad :: "nat \<Rightarrow> nat \<Rightarrow> string" where
  "zpad 0 k = []"
| "zpad (Suc n) k = zpad n (k div 10) @ [digit_char k]"

definition isoformat :: "datetime \<Rightarrow> string" where
  "isoformat d =
     zpad 4 (year d) @ ''-'' @ zpad 2 (month d) @ ''-'' @ zpad 2 (day d) @ ''T'' @
     zpad 2 (hour d) @ '':'' @ zpad 2 (minute d) @ '':'' @ zpad 2 (second d) @
     (if microsecond d \<noteq> 0 then ''.'' @ zpad 6 (microsecond d) else []) @
     (case tzoffset d of
        None \<Rightarrow> []
      | Some off \<Rightarrow>
          (if off < 0 then ''-'' else ''+'') @
          zpad 2 (nat \<bar>off\<bar> div 60) @ '':'' @ zpad 2 (nat \<bar>off\<bar> mod 60))"

text \<open>
  \<open>dt - timedelta(hours=24)\<close>: the same time of day on the previous calendar day.
  Before 0001-01-01 there is no datetime and Python raises \<open>OverflowError\<close>, which
  is \<open>None\<close> here.
\<close>

definition minus_24h :: "datetime \<Rightarrow> datetime option" where
  "minus_24h d =
     (if 1 < day d then Some (d\<lparr>day := day d - 1\<rparr>)
      else if 1 < month d then
        Some (d\<lparr>month := month d - 1, day := days_in_month (year d) (month d - 1)\<rparr>)
      else if 1 < year d then Some (d\<lparr>year := year d - 1, month := 12, day := 31\<rparr>)
      else None)"

section \<open>The transport library and the world outside the client\<close>

text \<open>
  An \<open>httpx.AsyncClient\<close> is a handle with its construction arguments and a closed flag.
  Handles live in the world's store; the position in the store is the identity of the
  object, so two handles with equal settings are still two objects.
\<close>

datatype http_method = GET | POST

record handle =
  base_url :: string
  headers :: "(string \<times> string) list"
  timeout_cfg :: int
  follow_redirects :: bool
  is_closed :: bool

record request =
  via :: nat
  http_method :: http_method
  url :: string
  params :: "pydict option"
  json :: "pydict option"

text \<open>The body of a response is \<open>None\<close> when it does not parse as JSON.\<close>

record response =
  status_code :: int
  body :: "pyval option"

text \<open>
  The family below \<open>httpx.HTTPError\<close>: the error \<open>raise_for_status\<close> builds from a
  response, and the errors a request itself raises (connection failure, timeout, ...),
  with the name of the class and the message.
\<close>

datatype httpx_error =
    HTTPStatusError string request response
  | TransportError string string

fun str_httpx :: "httpx_error \<Rightarrow> string" where
  "str_httpx (HTTPStatusError msg req resp) = msg"
| "str_httpx (TransportError cls msg) = msg"

text \<open>The client's own taxonomy (exceptions.py): a base kind and four specializations.\<close>

datatype natureos_kind = Base | Authentication | NotFound | RateLimit | Server

text \<open>
  What an operation can raise. \<open>InvalidURL\<close> is httpx's error for a URL it cannot
  parse, with that URL; it is not below \<open>httpx.HTTPError\<close>.
\<close>

datatype exc =
    HTTPError httpx_error
  | JSONDecodeError
  | AttributeError string
  | OverflowError
  | NatureOSError natureos_kind string "int option"
  | InvalidURL string

datatype net_outcome = Raises httpx_error | Responds response

datatype log_level = INFO | ERROR

text \<open>
  Everything the client reads or changes outside itself: the process environment, the
  UTC clock (one reading per call of \<open>utcnow\<close>), the network (the outcome of the
  \<open>n\<close>-th request), the text httpx puts into a status error, the requests issued so
  far, the store of handles and the log.
\<close>

record world =
  environ :: "string \<Rightarrow> string option"
  clock :: "nat \<Rightarrow> datetime"
  clock_reads :: nat
  network :: "nat \<Rightarrow> request \<Rightarrow> net_outcome"
  status_message :: "request \<Rightarrow> response \<Rightarrow> string"
  sent :: "request list"
  handles :: "handle list"
  log :: "(log_level \<times> string) list"

definition getenv :: "world \<Rightarrow> string \<Rightarrow> string \<Rightarrow> string" where
  "getenv w var dflt = (case environ w var of None \<Rightarrow> dflt | Some v \<Rightarrow> v)"

definition utcnow :: "world \<Rightarrow> datetime \<times> world" where
  "utcnow w = (clock w (clock_reads w), w\<lparr>clock_reads := clock_reads w + 1\<rparr>)"

definition logger_info :: "string \<Rightarrow> world \<Rightarrow> world" where
  "logger_info msg w = w\<lparr>log := log w @ [(INFO, msg)]\<rparr>"

definition logger_error :: "string \<Rightarrow> world \<Rightarrow> world" where
  "logger_error msg w = w\<lparr>log := log w @ [(ERROR, msg)]\<rparr>"

text \<open>
  A new handle in the store, open, with the next free identity. The constructor
  \<open>httpx.AsyncClient(base_url=..., ...)\<close> parses the base URL first: for a URL it rejects
  it raises \<open>InvalidURL\<close> and there is no new handle. Which strings httpx rejects is the
  parameter \<open>rejects\<close> (an unterminated IPv6 literal and a control character are
  rejected).
\<close>

definition new_handle :: "string \<Rightarrow> (string \<times> string) list \<Rightarrow> int \<Rightarrow> bool \<Rightarrow> world \<Rightarrow> nat \<times> world" where
  "new_handle burl hdrs tmo redirects w =
     (length (handles w),
      w\<lparr>handles := handles w @
         [\<lparr>base_url = burl, headers = hdrs, timeout_cfg = tmo,
           follow_redirects = redirects, is_closed = False\<rparr>]\<rparr>)"

definition AsyncClient :: "(string \<Rightarrow> bool) \<Rightarrow> string \<Rightarrow> (string \<times> string) list \<Rightarrow> int \<Rightarrow> bool \<Rightarrow>
    world \<Rightarrow> (exc + nat) \<times> world" where
  "AsyncClient rejects burl hdrs tmo redirects w =
     (if rejects burl then (Inl (InvalidURL burl), w)
      else (case new_handle burl hdrs tmo redirects w of (h, w') \<Rightarrow> (Inr h, w')))"

definition aclose :: "nat \<Rightarrow> world \<Rightarrow> world" where
  "aclose h w =
     (if h < length (handles w)
      then w\<lparr>handles := (handles w)[h := (handles w ! h)\<lparr>is_closed := True\<rparr>]\<rparr>
      else w)"

text \<open>
  The exchange of a request with the network: the request is recorded as sent and the
  network decides its outcome. \<open>client.get\<close> and \<open>client.post\<close> parse the path first:
  for a path httpx rejects they raise \<open>InvalidURL\<close> and nothing is sent; \<open>invoke\<close>
  below decides that case before the exchange.
\<close>

definition send :: "request \<Rightarrow> world \<Rightarrow> net_outcome \<times> world" where
  "send req w = (network w (length (sent w)) req, w\<lparr>sent := sent w @ [req]\<rparr>)"

definition client_get :: "nat \<Rightarrow> string \<Rightarrow> pydict option \<Rightarrow> request" where
  "client_get h path ps = \<lparr>via = h, http_method = GET, url = path, params = ps, json = None\<rparr>"

definition client_post :: "nat \<Rightarrow> string \<Rightarrow> pydict \<Rightarrow> request" where
  "client_post h path payload =
     \<lparr>via = h, http_method = POST, url = path, params = None, json = Some payload\<rparr>"

definition is_success :: "response \<Rightarrow> bool" where
  "is_success resp = (200 \<le> status_code resp \<and> status_code resp \<le> 299)"

definition raise_for_status :: "world \<Rightarrow> request \<Rightarrow> response \<Rightarrow> httpx_error option" where
  "raise_for_status w req resp =
     (if is_success resp then None
      else Some (HTTPStatusError (status_message w req resp) req resp))"

definition response_json :: "response \<Rightarrow> exc + pyval" where
  "response_json resp = (case body resp of None \<Rightarrow> Inl JSONDecodeError | Some v \<Rightarrow> Inr v)"

text \<open>\<open>data.get(key, default)\<close>: only a dict has the method.\<close>

definition py_get :: "pyval \<Rightarrow> string \<Rightarrow> pyval \<Rightarrow> exc + pyval" where
  "py_get data k dflt =
     (case data of
        PDict d \<Rightarrow> Inr (case dict_get d k of None \<Rightarrow> dflt | Some v \<Rightarrow> v)
      | _ \<Rightarrow> Inl (AttributeError ''get''))"

section \<open>NatureOSClient (client.py)\<close>

record client =
  config :: pydict
  api_url :: string
  api_key :: string
  tenant_id :: string
  timeout :: int
  max_retries :: int
  http_client :: "nat option"

text \<open>
  The result of an operation: the exception raised (\<open>Inl\<close>) or the value returned
  (\<open>Inr\<close>), with the client and the world as the call leaves them.
\<close>

type_synonym outcome = "(exc + pyval) \<times> client \<times> world"

definition init :: "string option \<Rightarrow> string option \<Rightarrow> string option \<Rightarrow> int \<Rightarrow> int \<Rightarrow>
    pydict option \<Rightarrow> world \<Rightarrow> client \<times> world" where
  "init api_url' api_key' tenant_id' timeout' max_retries' config' w =
     (let self = \<lparr>config = py_or config' [],
                  api_url = rstrip CHR ''/''
                    (py_or api_url' (getenv w ''NATUREOS_API_URL'' ''http://localhost:8002'')),
                  api_key = py_or api_key' (getenv w ''NATUREOS_API_KEY'' []),
                  tenant_id = py_or tenant_id' (getenv w ''NATUREOS_TENANT_ID'' []),
                  timeout = timeout',
                  max_retries = max_retries',
                  http_client = None\<rparr>
      in (self, logger_info (''NatureOS client initialized - API: '' @ api_url self) w))"

text \<open>
  The headers of a new handle (the first lines of \<open>_get_http_client\<close>): the two fixed
  ones, the bearer token when the key is non-empty, the tenant when it is non-empty.
\<close>

definition build_headers :: "client \<Rightarrow> (string \<times> string) list" where
  "build_headers self =
     (let hdrs0 = [(''Content-Type'', ''application/json''),
                   (''Accept'', ''application/json'')];
          hdrs1 = (if api_key self \<noteq> []
                   then AList.update ''Authorization'' (''Bearer '' @ api_key self) hdrs0
                   else hdrs0);
          hdrs2 = (if tenant_id self \<noteq> []
                   then AList.update ''X-Tenant-ID'' (tenant_id self) hdrs1
                   else hdrs1)
      in hdrs2)"

text \<open>
  \<open>_get_http_client\<close> for a base URL that httpx accepts: the handle the client has, or
  a new one that it stores. \<open>acquire\<close> is \<open>_get_http_client\<close> with the constructor's
  check of the base URL: when the client has no handle and httpx rejects the URL, the
  constructor raises before anything is stored.
\<close>

definition get_http_client :: "client \<Rightarrow> world \<Rightarrow> nat \<times> client \<times> world" where
  "get_http_client self w =
     (case http_client self of
        None \<Rightarrow>
          (let (h, w') = new_handle (api_url self) (build_headers self) (timeout self) True w
           in (h, self\<lparr>http_client := Some h\<rparr>, w'))
      | Some h \<Rightarrow> (h, self, w))"

definition acquire :: "(string \<Rightarrow> bool) \<Rightarrow> client \<Rightarrow> world \<Rightarrow> (exc + nat) \<times> client \<times> world" where
  "acquire rejects self w =
     (case http_client self of
        None \<Rightarrow>
          (case AsyncClient rejects (api_url self) (build_headers self) (timeout self) True w of
             (Inl e, w') \<Rightarrow> (Inl e, self, w')
           | (Inr h, w') \<Rightarrow> (Inr h, self\<lparr>http_client := Some h\<rparr>, w'))
      | Some h \<Rightarrow> (Inr h, self, w))"

text \<open>
  The shared shape of the five network operations: inside \<open>try\<close>, the request is sent and
  \<open>raise_for_status\<close> is called; \<open>except httpx.HTTPError as e\<close> logs \<open>prefix: e\<close> at
  error severity and re-raises \<open>e\<close>. What follows a good status (\<open>cont\<close>) runs inside
  the same \<open>try\<close>, and the errors it raises are not below \<open>httpx.HTTPError\<close>.
\<close>

definition except_HTTPError :: "string \<Rightarrow> httpx_error \<Rightarrow> client \<Rightarrow> world \<Rightarrow> outcome" where
  "except_HTTPError prefix e self w =
     (Inl (HTTPError e), self, logger_error (prefix @ str_httpx e) w)"

definition request_checked :: "string \<Rightarrow> request \<Rightarrow> (response \<Rightarrow> client \<Rightarrow> world \<Rightarrow> outcome) \<Rightarrow>
    client \<Rightarrow> world \<Rightarrow> outcome" where
  "request_checked prefix req cont self w =
     (let (out, w') = send req w
      in case out of
           Raises e \<Rightarrow> except_HTTPError prefix e self w'
         | Responds resp \<Rightarrow>
             (case raise_for_status w' req resp of
                Some e \<Rightarrow> except_HTTPError prefix e self w'
              | None \<Rightarrow> cont resp self w'))"

definition list_devices :: "string option \<Rightarrow> string option \<Rightarrow> int \<Rightarrow> client \<Rightarrow> world \<Rightarrow> outcome" where
  "list_devices device_type status limit self w =
     (let (h, self', w') = get_http_client self w;
          params0 = [(''limit'', PInt limit)];
          params1 = (if truthy device_type
                     then dict_set params0 ''device_type'' (PStr (the device_type))
                     else params0);
          params2 = (if truthy status
                     then dict_set params1 ''status'' (PStr (the status))
                     else params1)
      in request_checked ''Error listing devices: ''
           (client_get h ''/devices'' (Some params2))
           (\<lambda>resp s x.
              case response_json resp of
                Inl e \<Rightarrow> (Inl e, s, x)
              | Inr data \<Rightarrow> (py_get data ''items'' (PList []), s, x))
           self' w')"

definition get_device :: "string \<Rightarrow> client \<Rightarrow> world \<Rightarrow> outcome" where
  "get_device device_id self w =
     (let (h, self', w') = get_http_client self w
      in request_checked (''Error getting device '' @ device_id @ '': '')
           (client_get h (''/devices/'' @ device_id) None)
           (\<lambda>resp s x. (response_json resp, s, x))
           self' w')"

definition register_payload :: "string \<Rightarrow> string \<Rightarrow> string \<Rightarrow> pydict option \<Rightarrow> pydict option \<Rightarrow> pydict" where
  "register_payload device_id name device_type location metadata =
     (let payload0 = [(''device_id'', PStr device_id),
                      (''name'', PStr name),
                      (''device_type'', PStr device_type)];
          payload1 = (if truthy location
                      then dict_set payload0 ''location'' (PDict (the location))
                      else payload0);
          payload2 = (if truthy metadata
                      then dict_set payload1 ''metadata'' (PDict (the metadata))
                      else payload1)
      in payload2)"

definition register_device :: "string \<Rightarrow> string \<Rightarrow> string \<Rightarrow> pydict option \<Rightarrow> pydict option \<Rightarrow>
    client \<Rightarrow> world \<Rightarrow> outcome" where
  "register_device device_id name device_type location metadata self w =
     (let (h, self', w') = get_http_client self w;
          payload = register_payload device_id name device_type location metadata
      in request_checked ''Error registering device: ''
           (client_post h ''/devices/register'' payload)
           (\<lambda>resp s x.
              (response_json resp, s, logger_info (''Registered device: '' @ device_id) x))
           self' w')"

text \<open>
  The query of \<open>get_sensor_data\<close>. A bound that is not given is computed from the
  clock, read once for each missing bound; the subtraction raises \<open>OverflowError\<close>
  when there is no datetime 24 hours earlier.
\<close>

definition sensor_params :: "string option \<Rightarrow> datetime option \<Rightarrow> datetime option \<Rightarrow> int \<Rightarrow>
    world \<Rightarrow> (exc + pydict) \<times> world" where
  "sensor_params sensor_type start_time end_time limit w =
     (let params0 = [(''limit'', PInt limit)];
          params1 = (if truthy sensor_type
                     then dict_set params0 ''sensor_type'' (PStr (the sensor_type))
                     else params0);
          (start, w1) = (case start_time of
                           Some t \<Rightarrow> (Some (isoformat t), w)
                         | None \<Rightarrow>
                             (let (now, x) = utcnow w
                              in (map_option isoformat (minus_24h now), x)))
      in case start of
           None \<Rightarrow> (Inl OverflowError, w1)
         | Some s \<Rightarrow>
             (let params2 = dict_set params1 ''start_time'' (PStr s);
                  (e, w2) = (case end_time of
                               Some t \<Rightarrow> (isoformat t, w1)
                             | None \<Rightarrow> (let (now, x) = utcnow w1 in (isoformat now, x)))
              in (Inr (dict_set params2 ''end_time'' (PStr e)), w2)))"

definition get_sensor_data :: "string \<Rightarrow> string option \<Rightarrow> datetime option \<Rightarrow> datetime option \<Rightarrow> int \<Rightarrow>
    client \<Rightarrow> world \<Rightarrow> outcome" where
  "get_sensor_data device_id sensor_type start_time end_time limit self w =
     (let (h, self', w1) = get_http_client self w;
          (ps, w2) = sensor_params sensor_type start_time end_time limit w1
      in case ps of
           Inl e \<Rightarrow> (Inl e, self', w2)
         | Inr ps' \<Rightarrow>
             request_checked ''Error getting sensor data: ''
               (client_get h (''/devices/'' @ device_id @ ''/sensor-data'') (Some ps'))
               (\<lambda>resp s x.
                  case response_json resp of
                    Inl e \<Rightarrow> (Inl e, s, x)
                  | Inr data \<Rightarrow> (py_get data ''items'' (PList []), s, x))
               self' w2)"

definition send_command :: "string \<Rightarrow> string \<Rightarrow> pydict \<Rightarrow> client \<Rightarrow> world \<Rightarrow> outcome" where
  "send_command device_id command_type parameters self w =
     (let (h, self', w') = get_http_client self w;
          payload = [(''command_type'', PStr command_type),
                     (''parameters'', PDict parameters)]
      in request_checked ''Error sending command: ''
           (client_post h (''/devices/'' @ device_id @ ''/commands'') payload)
           (\<lambda>resp s x.
              (response_json resp, s,
               logger_info (''Sent command '' @ command_type @ '' to device '' @ device_id) x))
           self' w')"

definition mycobrain_metadata :: "string \<Rightarrow> string \<Rightarrow> pydict option \<Rightarrow> pydict" where
  "mycobrain_metadata serial_number firmware_version metadata =
     (let device_metadata = [(''serial_number'', PStr serial_number),
                             (''firmware_version'', PStr firmware_version),
                             (''device_type'', PStr ''mycobrain'')]
      in if truthy metadata then dict_update device_metadata (the metadata)
         else device_metadata)"

definition register_mycobrain_device :: "string \<Rightarrow> string \<Rightarrow> string \<Rightarrow> string \<Rightarrow> pydict option \<Rightarrow>
    pydict option \<Rightarrow> client \<Rightarrow> world \<Rightarrow> outcome" where
  "register_mycobrain_device device_id serial_number name firmware_version location metadata self w =
     register_device device_id name ''mycobrain'' location
       (Some (mycobrain_metadata serial_number firmware_version metadata)) self w"

definition close :: "client \<Rightarrow> world \<Rightarrow> outcome" where
  "close self w =
     (case http_client self of
        Some h \<Rightarrow> (Inr PNone, self\<lparr>http_client := None\<rparr>, aclose h w)
      | None \<Rightarrow> (Inr PNone, self, w))"

text \<open>The public operations as data, so that a property can range over all of them.\<close>

datatype call =
    ListDevices "string option" "string option" int
  | GetDevice string
  | RegisterDevice string string string "pydict option" "pydict option"
  | GetSensorData string "string option" "datetime option" "datetime option" int
  | SendCommand string string pydict
  | RegisterMycobrainDevice string string string string "pydict option" "pydict option"
  | Close

fun perform :: "call \<Rightarrow> client \<Rightarrow> world \<Rightarrow> outcome" where
  "perform (ListDevices device_type status limit) = list_devices device_type status limit"
| "perform (GetDevice device_id) = get_device device_id"
| "perform (RegisterDevice device_id name device_type location metadata) =
     register_device device_id name device_type location metadata"
| "perform (GetSensorData device_id sensor_type start_time end_time limit) =
     get_sensor_data device_id sensor_type start_time end_time limit"
| "perform (SendCommand device_id command_type parameters) =
     send_command device_id command_type parameters"
| "perform (RegisterMycobrainDevice device_id serial_number name firmware_version location metadata) =
     register_mycobrain_device device_id serial_number name firmware_version location metadata"
| "perform Close = close"


text \<open>
  The operations with the URLs that httpx rejects. Each operation but \<open>close\<close> first
  obtains the handle (\<open>acquire\<close>); \<open>get_sensor_data\<close> then builds its query, reading
  the clock; then the path goes to \<open>client.get\<close> or \<open>client.post\<close>. httpx raises
  \<open>InvalidURL\<close> for a base URL it rejects when the handle is built, and for a path it
  rejects before the request is sent. The error is not below \<open>httpx.HTTPError\<close>, so
  no \<open>except\<close> clause catches or logs it: the operation raises it, with the client and
  the world as they are at that point. Without a rejected URL the operation is
  \<open>perform\<close>.
\<close>

fun path_of :: "call \<Rightarrow> string" where
  "path_of (ListDevices device_type status limit) = ''/devices''"
| "path_of (GetDevice device_id) = ''/devices/'' @ device_id"
| "path_of (RegisterDevice device_id name device_type location metadata) = ''/devices/register''"
| "path_of (GetSensorData device_id sensor_type start_time end_time limit) =
     ''/devices/'' @ device_id @ ''/sensor-data''"
| "path_of (SendCommand device_id command_type parameters) =
     ''/devices/'' @ device_id @ ''/commands''"
| "path_of (RegisterMycobrainDevice device_id serial_number name firmware_version location metadata) =
     ''/devices/register''"
| "path_of Close = []"

fun before_request :: "call \<Rightarrow> world \<Rightarrow> exc option \<times> world" where
  "before_request (GetSensorData device_id sensor_type start_time end_time limit) w =
     (case sensor_params sensor_type start_time end_time limit w of
        (Inl e, w') \<Rightarrow> (Some e, w')
      | (Inr ps, w') \<Rightarrow> (None, w'))"
| "before_request c w = (None, w)"

definition invoke :: "(string \<Rightarrow> bool) \<Rightarrow> call \<Rightarrow> client \<Rightarrow> world \<Rightarrow> outcome" where
  "invoke rejects c self w =
     (if c = Close then close self w
      else
        (case acquire rejects self w of
           (Inl e, self', w') \<Rightarrow> (Inl e, self', w')
         | (Inr h, self', w') \<Rightarrow>
             (case before_request c w' of
                (Some e, w'') \<Rightarrow> (Inl e, self', w'')
              | (None, w'') \<Rightarrow>
                  (if rejects (path_of c) then (Inl (InvalidURL (path_of c)), self', w'')
                   else perform c self w))))"

fun invoke_all :: "(string \<Rightarrow> bool) \<Rightarrow> call list \<Rightarrow> client \<Rightarrow> world \<Rightarrow> client \<times> world" where
  "invoke_all rejects [] self w = (self, w)"
| "invoke_all rejects (c # cs) self w =
     (case invoke rejects c self w of (r, self', w') \<Rightarrow> invoke_all rejects cs self' w')"

section \<open>Evaluating the modules of the package\<close>

text \<open>
  Importing a module runs its top-level statements in order. What matters for an import
  is which names a statement looks up when it runs and which names it binds. A \<open>def\<close>
  does not run its body, but it evaluates the annotations and defaults of its signature
  (the semantics of CPython up to 3.13 without \<open>from __future__ import annotations\<close>);
  a \<open>class\<close> evaluates its bases and runs its body in a scope of its own, inside the
  module's. A name that is bound nowhere raises \<open>NameError\<close>.
\<close>

datatype stmt =
    Expr "string list"
  | Import string
  | ImportFrom string "string list"
  | Assign string "string list"
  | FunctionDef string "string list"
  | ClassDef string "string list" "stmt list"

datatype import_error = NameError string | ImportError string string | ModuleNotFoundError string

fun first_unbound :: "string list \<Rightarrow> string list \<Rightarrow> string option" where
  "first_unbound visible [] = None"
| "first_unbound visible (n # ns) =
     (if n \<in> set visible then first_unbound visible ns else Some n)"

fun exec_stmt :: "(string \<Rightarrow> import_error + string list) \<Rightarrow> string list \<Rightarrow> stmt \<Rightarrow>
      import_error + string list"
  and exec_block :: "(string \<Rightarrow> import_error + string list) \<Rightarrow> string list \<Rightarrow> string list \<Rightarrow>
      stmt list \<Rightarrow> import_error + string list" where
  "exec_stmt imp visible (Expr ns) =
     (case first_unbound visible ns of Some n \<Rightarrow> Inl (NameError n) | None \<Rightarrow> Inr [])"
| "exec_stmt imp visible (Import m) =
     (case imp m of Inl e \<Rightarrow> Inl e | Inr exported \<Rightarrow> Inr [m])"
| "exec_stmt imp visible (ImportFrom m ns) =
     (case imp m of
        Inl e \<Rightarrow> Inl e
      | Inr exported \<Rightarrow>
          (case first_unbound exported ns of
             Some n \<Rightarrow> Inl (ImportError m n)
           | None \<Rightarrow> Inr ns))"
| "exec_stmt imp visible (Assign target ns) =
     (case first_unbound visible ns of Some n \<Rightarrow> Inl (NameError n) | None \<Rightarrow> Inr [target])"
| "exec_stmt imp visible (FunctionDef f ns) =
     (case first_unbound visible ns of Some n \<Rightarrow> Inl (NameError n) | None \<Rightarrow> Inr [f])"
| "exec_stmt imp visible (ClassDef c bases cbody) =
     (case first_unbound visible bases of
        Some n \<Rightarrow> Inl (NameError n)
      | None \<Rightarrow>
          (case exec_block imp visible [] cbody of
             Inl e \<Rightarrow> Inl e
           | Inr attrs \<Rightarrow> Inr [c]))"
| "exec_block imp outer bound [] = Inr bound"
| "exec_block imp outer bound (s # ss) =
     (case exec_stmt imp (bound @ outer) s of
        Inl e \<Rightarrow> Inl e
      | Inr new \<Rightarrow> exec_block imp outer (bound @ new) ss)"

definition builtins :: "string list" where
  "builtins = [''str'', ''int'', ''float'', ''Exception'']"

definition exec_module :: "(string \<Rightarrow> import_error + string list) \<Rightarrow> stmt list \<Rightarrow>
    import_error + string list" where
  "exec_module imp src = exec_block imp builtins [''__name__''] src"

text \<open>The libraries the package imports, installed, with the names it takes from them.\<close>

definition site_packages :: "string \<Rightarrow> import_error + string list" where
  "site_packages m =
     (if m = ''os'' then Inr [''getenv'']
      else if m = ''logging'' then Inr [''getLogger'']
      else if m = ''typing'' then Inr [''Dict'', ''Any'', ''Optional'', ''List'']
      else if m = ''datetime'' then Inr [''datetime'', ''timedelta'']
      else if m = ''httpx'' then Inr [''AsyncClient'', ''HTTPError'']
      else Inl (ModuleNotFoundError m))"

text \<open>exceptions.py: a docstring and five classes; nothing is imported.\<close>

definition exceptions_py :: "stmt list" where
  "exceptions_py =
     [Expr [],
      ClassDef ''NatureOSError'' [''Exception'']
        [Expr [], FunctionDef ''__init__'' [''str'', ''Optional'', ''int'']],
      ClassDef ''AuthenticationError'' [''NatureOSError''] [Expr [], Expr []],
      ClassDef ''NotFoundError'' [''NatureOSError''] [Expr [], Expr []],
      ClassDef ''RateLimitError'' [''NatureOSError''] [Expr [], Expr []],
      ClassDef ''ServerError'' [''NatureOSError''] [Expr [], Expr []]]"

text \<open>client.py: the imports, the logger and the class with the names of its signatures.\<close>

definition client_py :: "stmt list" where
  "client_py =
     [Expr [],
      Import ''os'',
      Import ''logging'',
      ImportFrom ''typing'' [''Dict'', ''Any'', ''Optional'', ''List''],
      ImportFrom ''datetime'' [''datetime'', ''timedelta''],
      Import ''httpx'',
      Assign ''logger'' [''logging'', ''__name__''],
      ClassDef ''NatureOSClient'' []
        [Expr [],
         FunctionDef ''__init__'' [''Optional'', ''str'', ''int'', ''Dict'', ''Any''],
         FunctionDef ''_get_http_client'' [''httpx''],
         FunctionDef ''list_devices'' [''Optional'', ''str'', ''int'', ''List'', ''Dict'', ''Any''],
         FunctionDef ''get_device'' [''str'', ''Dict'', ''Any''],
         FunctionDef ''register_device'' [''str'', ''Optional'', ''Dict'', ''Any''],
         FunctionDef ''get_sensor_data''
           [''str'', ''Optional'', ''datetime'', ''int'', ''List'', ''Dict'', ''Any''],
         FunctionDef ''send_command'' [''str'', ''Dict'', ''Any''],
         FunctionDef ''register_mycobrain_device''
           [''str'', ''Optional'', ''Dict'', ''float'', ''Any''],
         FunctionDef ''close'' [],
         FunctionDef ''__aenter__'' [],
         FunctionDef ''__aexit__'' []]]"

text \<open>The package's \<open>__init__.py\<close>, and the import system as the package sees it.\<close>

definition init_py :: "stmt list" where
  "init_py =
     [Expr [],
      Assign ''__version__'' [],
      ImportFrom ''natureos_sdk.client'' [''NatureOSClient''],
      ImportFrom ''natureos_sdk.exceptions'' [''NatureOSError''],
      Assign ''__all__'' []]"

definition import_submodule :: "string \<Rightarrow> import_error + string list" where
  "import_submodule m =
     (if m = ''natureos_sdk.client'' then exec_module site_packages client_py
      else if m = ''natureos_sdk.exceptions'' then exec_module site_packages exceptions_py
      else site_packages m)"

definition import_natureos_sdk :: "import_error + string list" where
  "import_natureos_sdk = exec_module import_submodule init_py"

text \<open>
  Importing a submodule from outside imports the package first. Building an error of
  the taxonomy needs its class, which only the evaluated exceptions module provides.
\<close>

definition import_from_package :: "string \<Rightarrow> import_error + string list" where
  "import_from_package m =
     (case import_natureos_sdk of
        Inl e \<Rightarrow> Inl e
      | Inr ns \<Rightarrow> import_submodule m)"

fun class_name :: "natureos_kind \<Rightarrow> string" where
  "class_name Base = ''NatureOSError''"
| "class_name Authentication = ''AuthenticationError''"
| "class_name NotFound = ''NotFoundError''"
| "class_name RateLimit = ''RateLimitError''"
| "class_name Server = ''ServerError''"

definition construct_error :: "natureos_kind \<Rightarrow> string \<Rightarrow> int option \<Rightarrow> import_error + exc" where
  "construct_error kind message code =
     (case import_from_package ''natureos_sdk.exceptions'' of
        Inl e \<Rightarrow> Inl e
      | Inr ns \<Rightarrow>
          (if class_name kind \<in> set ns then Inr (NatureOSError kind message code)
           else Inl (ImportError ''natureos_sdk.exceptions'' (class_name kind))))"

section \<open>Notions the properties are stated with\<close>

abbreviation result_of :: "outcome \<Rightarrow> exc + pyval" where
  "result_of out \<equiv> fst out"

abbreviation client_of :: "outcome \<Rightarrow> client" where
  "client_of out \<equiv> fst (snd out)"

abbreviation world_of :: "outcome \<Rightarrow> world" where
  "world_of out \<equiv> snd (snd out)"

text \<open>
  The transport-level failure of the \<open>n\<close>-th request, if it has one: the error the
  request raises (connection failure), or the status error of a response outside 2xx.
\<close>

definition failure_of :: "world \<Rightarrow> nat \<Rightarrow> request \<Rightarrow> httpx_error option" where
  "failure_of w n req =
     (case network w n req of
        Raises e \<Rightarrow> Some e
      | Responds resp \<Rightarrow> raise_for_status w req resp)"

text \<open>The context each operation puts in front of the error in its log record.\<close>

fun error_context :: "call \<Rightarrow> string" where
  "error_context (ListDevices device_type status limit) = ''Error listing devices: ''"
| "error_context (GetDevice device_id) = ''Error getting device '' @ device_id @ '': ''"
| "error_context (RegisterDevice device_id name device_type location metadata) =
     ''Error registering device: ''"
| "error_context (GetSensorData device_id sensor_type start_time end_time limit) =
     ''Error getting sensor data: ''"
| "error_context (SendCommand device_id command_type parameters) = ''Error sending command: ''"
| "error_context (RegisterMycobrainDevice device_id serial_number name firmware_version location metadata) =
     ''Error registering device: ''"
| "error_context Close = []"

text \<open>Whether an exception belongs to the client's taxonomy, and to which kind.\<close>

fun natureos_kind_of :: "exc \<Rightarrow> natureos_kind option" where
  "natureos_kind_of (NatureOSError kind message code) = Some kind"
| "natureos_kind_of e = None"

fun raised_kind :: "exc + pyval \<Rightarrow> natureos_kind option" where
  "raised_kind (Inl e) = natureos_kind_of e"
| "raised_kind (Inr v) = None"

text \<open>
  The handles of the store that are open, by identity. The client is the only one that
  creates handles in its world; its invariant is that the open handles are exactly the
  one it refers to, if it refers to one.
\<close>

definition open_handles :: "world \<Rightarrow> nat list" where
  "open_handles w = filter (\<lambda>i. \<not> is_closed (handles w ! i)) [0..<length (handles w)]"

definition handle_inv :: "client \<Rightarrow> world \<Rightarrow> bool" where
  "handle_inv self w =
     (open_handles w = (case http_client self of None \<Rightarrow> [] | Some h \<Rightarrow> [h]))"






text \<open>The last request issued, if any.\<close>

definition last_request :: "world \<Rightarrow> request option" where
  "last_request w = (if sent w = [] then None else Some (last (sent w)))"


text \<open>
  The clock reading that the \<open>n\<close>-th next call of \<open>utcnow\<close> returns, and the time
  window a call has put into its request.
\<close>

definition reading :: "world \<Rightarrow> nat \<Rightarrow> datetime" where
  "reading w n = clock w (clock_reads w + n)"


section \<open>Concrete worlds\<close>

text \<open>
  A world with an empty environment, a clock that starts at 2024-03-01T00:00:00 and
  advances one second per reading, and a server that answers every request with 200
  and an empty object; and the same world with a server that answers 500.
\<close>

definition tick :: "nat \<Rightarrow> datetime" where
  "tick n = \<lparr>year = 2024, month = 3, day = 1, hour = 0, minute = 0, second = n mod 60,
             microsecond = 0, tzoffset = None\<rparr>"

definition calm_world :: world where
  "calm_world =
     \<lparr>environ = (\<lambda>var. None),
      clock = tick,
      clock_reads = 0,
      network = (\<lambda>n req. Responds \<lparr>status_code = 200, body = Some (PDict [])\<rparr>),
      status_message = (\<lambda>req resp. ''status error''),
      sent = [],
      handles = [],
      log = []\<rparr>"

definition failing_world :: world where
  "failing_world =
     calm_world\<lparr>network := (\<lambda>n req. Responds \<lparr>status_code = 500, body = None\<rparr>)\<rparr>"

text \<open>
  A transport that rejects one URL, an IPv6 literal without its closing bracket, and a
  client constructed with that URL.
\<close>

definition unparsable :: "string \<Rightarrow> bool" where
  "unparsable u = (u = ''http://[::1'')"

definition stranded_client :: client where
  "stranded_client = fst (init (Some ''http://[::1'') None None 30 3 None calm_world)"


definition new_client :: client where
  "new_client = fst (init None None None 30 3 None calm_world)"

section \<open>The common shape of the network operations\<close>

text \<open>
  What runs after a good status neither touches the client, the requests or the handles
  nor raises an error of the transport or of the client's taxonomy (\<open>benign\<close>). Every
  operation but \<open>close\<close> obtains the handle and then either fails before any request
  with \<open>OverflowError\<close>, or is one checked request followed by such a continuation
  (\<open>shaped\<close>).
\<close>

definition benign :: "(response \<Rightarrow> client \<Rightarrow> world \<Rightarrow> outcome) \<Rightarrow> bool" where
  "benign cont =
     (\<forall>resp s x.
        client_of (cont resp s x) = s \<and>
        sent (world_of (cont resp s x)) = sent x \<and>
        handles (world_of (cont resp s x)) = handles x \<and>
        raised_kind (result_of (cont resp s x)) = None \<and>
        (\<forall>e. result_of (cont resp s x) \<noteq> Inl (HTTPError e)))"

definition shaped :: "call \<Rightarrow> client \<Rightarrow> world \<Rightarrow> bool" where
  "shaped c self w =
     (let (h, self1, w0) = get_http_client self w
      in (\<exists>req cont w1.
            perform c self w = request_checked (error_context c) req cont self1 w1 \<and>
            via req = h \<and> benign cont \<and>
            sent w1 = sent w \<and> log w1 = log w \<and> handles w1 = handles w0 \<and>
            network w1 = network w \<and> status_message w1 = status_message w)
         \<or>
         (\<exists>w1. perform c self w = (Inl OverflowError, self1, w1) \<and>
            sent w1 = sent w \<and> log w1 = log w \<and> handles w1 = handles w0))"

section \<open>Lemmas about the handle and the checked request\<close>

lemma get_http_client_None:
  "http_client self = None \<Longrightarrow>
   get_http_client self w =
     (length (handles w), self\<lparr>http_client := Some (length (handles w))\<rparr>,
      w\<lparr>handles := handles w @
        [\<lparr>base_url = api_url self, headers = build_headers self, timeout_cfg = timeout self,
          follow_redirects = True, is_closed = False\<rparr>]\<rparr>)"
  by (simp add: get_http_client_def new_handle_def)

lemma get_http_client_Some:
  "http_client self = Some h \<Longrightarrow> get_http_client self w = (h, self, w)"
  by (simp add: get_http_client_def)

lemma get_http_client_keeps:
  "sent (snd (snd (get_http_client self w))) = sent w"
  "log (snd (snd (get_http_client self w))) = log w"
  "network (snd (snd (get_http_client self w))) = network w"
  "status_message (snd (snd (get_http_client self w))) = status_message w"
  "clock (snd (snd (get_http_client self w))) = clock w"
  "clock_reads (snd (snd (get_http_client self w))) = clock_reads w"
  "http_client (fst (snd (get_http_client self w))) = Some (fst (get_http_client self w))"
  "max_retries (fst (snd (get_http_client self w))) = max_retries self"
  by (cases "http_client self"; simp add: get_http_client_None get_http_client_Some)+

lemma request_checked_failure:
  "failure_of w (length (sent w)) req = Some e \<Longrightarrow>
   request_checked prefix req cont self w =
     (Inl (HTTPError e), self,
      w\<lparr>sent := sent w @ [req], log := log w @ [(ERROR, prefix @ str_httpx e)]\<rparr>)"
  by (auto simp: request_checked_def failure_of_def send_def except_HTTPError_def
      logger_error_def raise_for_status_def split: net_outcome.splits if_splits)

lemma request_checked_success:
  "failure_of w (length (sent w)) req = None \<Longrightarrow>
   \<exists>resp. network w (length (sent w)) req = Responds resp \<and> is_success resp \<and>
     request_checked prefix req cont self w = cont resp self (w\<lparr>sent := sent w @ [req]\<rparr>)"
  by (auto simp: request_checked_def failure_of_def send_def
      raise_for_status_def split: net_outcome.splits if_splits)

lemma response_json_kind: "raised_kind (response_json resp) = None"
  "response_json resp \<noteq> Inl (HTTPError e)"
  by (auto simp: response_json_def split: option.splits)

lemma py_get_kind: "raised_kind (py_get data k d) = None"
  "py_get data k d \<noteq> Inl (HTTPError e)"
  by (auto simp: py_get_def split: pyval.splits)

lemma benign_items:
  "benign (\<lambda>resp s x. case response_json resp of Inl e \<Rightarrow> (Inl e, s, x)
                        | Inr data \<Rightarrow> (py_get data k d, s, x))"
  unfolding benign_def
  by (auto simp: py_get_kind response_json_def split: sum.splits option.splits)

lemma benign_json: "benign (\<lambda>resp s x. (response_json resp, s, x))"
  unfolding benign_def by (auto simp: response_json_kind)

lemma benign_json_info: "benign (\<lambda>resp s x. (response_json resp, s, logger_info msg x))"
  unfolding benign_def by (auto simp: response_json_kind logger_info_def)

lemma shaped_list_devices: "shaped (ListDevices dt st lim) self w"
  unfolding shaped_def perform.simps list_devices_def error_context.simps Let_def split_def
  apply (rule disjI1)
  apply (intro exI conjI)
          apply (rule refl)
  apply (simp_all add: client_get_def benign_items get_http_client_keeps)
  done

lemma shaped_get_device: "shaped (GetDevice d) self w"
  unfolding shaped_def perform.simps get_device_def error_context.simps Let_def split_def
  apply (rule disjI1)
  apply (intro exI conjI)
          apply (rule refl)
  apply (simp_all add: client_get_def benign_json get_http_client_keeps)
  done

lemma shaped_register_device: "shaped (RegisterDevice d n t loc md) self w"
  unfolding shaped_def perform.simps register_device_def error_context.simps Let_def split_def
  apply (rule disjI1)
  apply (intro exI conjI)
          apply (rule refl)
  apply (simp_all add: client_post_def benign_json_info get_http_client_keeps)
  done

lemma shaped_register_mycobrain: "shaped (RegisterMycobrainDevice d sn n fw loc md) self w"
  unfolding shaped_def perform.simps register_mycobrain_device_def register_device_def
    error_context.simps Let_def split_def
  apply (rule disjI1)
  apply (intro exI conjI)
          apply (rule refl)
  apply (simp_all add: client_post_def benign_json_info get_http_client_keeps)
  done

lemma shaped_send_command: "shaped (SendCommand d ct ps) self w"
  unfolding shaped_def perform.simps send_command_def error_context.simps Let_def split_def
  apply (rule disjI1)
  apply (intro exI conjI)
          apply (rule refl)
  apply (simp_all add: client_post_def benign_json_info get_http_client_keeps)
  done

lemma shaped_request:
  assumes "perform c self w =
      request_checked (error_context c) req cont (fst (snd (get_http_client self w))) w1"
    and "via req = fst (get_http_client self w)" and "benign cont"
    and "sent w1 = sent w" and "log w1 = log w"
    and "handles w1 = handles (snd (snd (get_http_client self w)))"
    and "network w1 = network w" and "status_message w1 = status_message w"
  shows "shaped c self w"
  unfolding shaped_def split_def Let_def using assms by blast

lemma shaped_overflow:
  assumes "perform c self w = (Inl OverflowError, fst (snd (get_http_client self w)), w1)"
    and "sent w1 = sent w" and "log w1 = log w"
    and "handles w1 = handles (snd (snd (get_http_client self w)))"
  shows "shaped c self w"
  unfolding shaped_def split_def Let_def using assms by blast

lemma sensor_params_keeps:
  "sent (snd (sensor_params st a b lim w)) = sent w"
  "log (snd (sensor_params st a b lim w)) = log w"
  "handles (snd (sensor_params st a b lim w)) = handles w"
  "network (snd (sensor_params st a b lim w)) = network w"
  "status_message (snd (sensor_params st a b lim w)) = status_message w"
  "clock (snd (sensor_params st a b lim w)) = clock w"
  by (simp_all add: sensor_params_def utcnow_def split_def Let_def
      split: option.splits)

lemma sensor_params_error:
  "fst (sensor_params st a b lim w) = Inl e \<Longrightarrow> e = OverflowError"
  by (auto simp: sensor_params_def utcnow_def split_def Let_def split: option.splits)

lemma shaped_get_sensor_data: "shaped (GetSensorData d st a b lim) self w"
proof (cases "fst (sensor_params st a b lim (snd (snd (get_http_client self w))))")
  case (Inl e)
  then have "e = OverflowError" by (rule sensor_params_error)
  with Inl show ?thesis
    by (intro shaped_overflow [where
          ?w1.0 = "snd (sensor_params st a b lim (snd (snd (get_http_client self w))))"])
      (simp_all add: get_sensor_data_def split_def Let_def sensor_params_keeps
        get_http_client_keeps)
next
  case (Inr ps)
  show ?thesis
    by (rule shaped_request [where
          req = "client_get (fst (get_http_client self w)) (''/devices/'' @ d @ ''/sensor-data'') (Some ps)"
          and cont = "\<lambda>resp s x. case response_json resp of Inl e \<Rightarrow> (Inl e, s, x)
                        | Inr data \<Rightarrow> (py_get data ''items'' (PList []), s, x)"
          and ?w1.0 = "snd (sensor_params st a b lim (snd (snd (get_http_client self w))))"])
      (simp_all add: get_sensor_data_def split_def Let_def Inr sensor_params_keeps
        client_get_def benign_items get_http_client_keeps)
qed

lemma shaped_perform: "c \<noteq> Close \<Longrightarrow> shaped c self w"
  by (cases c) (simp_all add: shaped_list_devices shaped_get_device shaped_register_device
      shaped_register_mycobrain shaped_send_command shaped_get_sensor_data)

lemma request_checked_sent:
  "benign cont \<Longrightarrow> sent (world_of (request_checked prefix req cont self w)) = sent w @ [req]"
  by (cases "failure_of w (length (sent w)) req")
     (use request_checked_success [of w req prefix cont self] in
       \<open>auto simp: request_checked_failure benign_def\<close>)

lemma request_checked_handles:
  "benign cont \<Longrightarrow> handles (world_of (request_checked prefix req cont self w)) = handles w"
  by (cases "failure_of w (length (sent w)) req")
     (use request_checked_success [of w req prefix cont self] in
       \<open>auto simp: request_checked_failure benign_def\<close>)

lemma request_checked_client:
  "benign cont \<Longrightarrow> client_of (request_checked prefix req cont self w) = self"
  by (cases "failure_of w (length (sent w)) req")
     (use request_checked_success [of w req prefix cont self] in
       \<open>auto simp: request_checked_failure benign_def\<close>)

lemma request_checked_kind:
  "benign cont \<Longrightarrow> raised_kind (result_of (request_checked prefix req cont self w)) = None"
  by (cases "failure_of w (length (sent w)) req")
     (use request_checked_success [of w req prefix cont self] in
       \<open>auto simp: request_checked_failure benign_def\<close>)

lemma failure_of_cong:
  "network w1 = network w \<Longrightarrow> status_message w1 = status_message w \<Longrightarrow>
   failure_of w1 n req = failure_of w n req"
  by (simp add: failure_of_def raise_for_status_def split: net_outcome.splits)

lemma close_keeps: "sent (world_of (close self w)) = sent w" "log (world_of (close self w)) = log w"
  "result_of (close self w) = Inr PNone"
  by (auto simp: close_def aclose_def split: option.splits)



lemma perform_kind: "raised_kind (result_of (perform c self w)) = None"
proof (cases "c = Close")
  case True
  then show ?thesis by (simp add: close_keeps)
next
  case False
  from shaped_perform [OF False, of self w] show ?thesis
    unfolding shaped_def split_def Let_def
    by (auto simp: request_checked_kind)
qed

section \<open>The retry count is inert\<close>




lemma new_client_simp:
  "new_client = \<lparr>config = [], api_url = ''http://localhost:8002'', api_key = [], tenant_id = [],
     timeout = 30, max_retries = 3, http_client = None\<rparr>"
  by (simp add: new_client_def init_def py_or_def truthy_def getenv_def calm_world_def rstrip_def)

section \<open>Transport failures\<close>



section \<open>The kind of a raised error\<close>

lemma request_checked_HTTPError:
  assumes "benign cont"
    and "result_of (request_checked prefix req cont self w) = Inl (HTTPError x)"
  shows "failure_of w (length (sent w)) req = Some x"
proof (cases "failure_of w (length (sent w)) req")
  case None
  from request_checked_success [OF None, of prefix cont self] assms show ?thesis
    by (auto simp: benign_def)
next
  case (Some e)
  with assms(2) show ?thesis by (simp add: request_checked_failure)
qed

lemma perform_HTTPError:
  assumes "result_of (perform c self w) = Inl (HTTPError x)"
  shows "sent (world_of (perform c self w)) \<noteq> sent w \<and>
         failure_of w (length (sent w)) (last (sent (world_of (perform c self w)))) = Some x"
proof -
  have nc: "c \<noteq> Close" using assms by (auto simp: close_keeps)
  from shaped_perform [OF nc, of self w] assms
  obtain req cont w1 where
    p: "perform c self w = request_checked (error_context c) req cont
          (fst (snd (get_http_client self w))) w1"
    and b: "benign cont" and s: "sent w1 = sent w"
    and n: "network w1 = network w" "status_message w1 = status_message w"
    unfolding shaped_def split_def Let_def by auto
  from request_checked_HTTPError [OF b] assms
  have "failure_of w1 (length (sent w1)) req = Some x" by (simp add: p)
  then have "failure_of w (length (sent w)) req = Some x"
    by (simp add: failure_of_cong [OF n] s)
  then show ?thesis by (simp add: p request_checked_sent [OF b] s)
qed

text \<open>
  Claim C2, as amended. The claim says that a failing operation raises the base kind
  \<open>NatureOSError\<close>. The client never builds an error of its taxonomy: an error that
  an operation raises is of no kind of the taxonomy, neither the base kind nor one of
  the four specializations, and an error of the transport library that reaches the
  caller is the very failure of the request the operation issued.
\<close>

theorem raised_error_outside_taxonomy:
  assumes "perform c self w = (Inl e, self', w')"
  shows "natureos_kind_of e = None \<and>
         (\<forall>x. e = HTTPError x \<longrightarrow>
            sent w' \<noteq> sent w \<and> failure_of w (length (sent w)) (last (sent w')) = Some x)"
proof -
  from perform_kind [of c self w] assms have "natureos_kind_of e = None" by simp
  moreover from perform_HTTPError [of c self w] assms
  have "\<forall>x. e = HTTPError x \<longrightarrow>
          sent w' \<noteq> sent w \<and> failure_of w (length (sent w)) (last (sent w')) = Some x"
    by simp
  ultimately show ?thesis by simp
qed

lemma list_devices_failing:
  "perform (ListDevices None None 100) new_client failing_world =
     (Inl (HTTPError (HTTPStatusError ''status error''
        \<lparr>via = 0, http_method = GET, url = ''/devices'', params = Some [(''limit'', PInt 100)],
          json = None\<rparr>
        \<lparr>status_code = 500, body = None\<rparr>)),
      new_client\<lparr>http_client := Some 0\<rparr>,
      failing_world\<lparr>
        sent := [\<lparr>via = 0, http_method = GET, url = ''/devices'',
                  params = Some [(''limit'', PInt 100)], json = None\<rparr>],
        handles := [\<lparr>base_url = ''http://localhost:8002'',
                     headers = [(''Content-Type'', ''application/json''),
                                (''Accept'', ''application/json'')],
                     timeout_cfg = 30, follow_redirects = True, is_closed = False\<rparr>],
        log := [(ERROR, ''Error listing devices: status error'')]\<rparr>)"
  by (simp add: new_client_simp failing_world_def calm_world_def list_devices_def
      get_http_client_def build_headers_def new_handle_def request_checked_def send_def
      client_get_def raise_for_status_def is_success_def except_HTTPError_def logger_error_def
      truthy_def split_def Let_def)

theorem raised_error_outside_taxonomy_witness:
  "natureos_kind_of (HTTPError (HTTPStatusError ''status error''
        \<lparr>via = 0, http_method = GET, url = ''/devices'', params = Some [(''limit'', PInt 100)],
          json = None\<rparr>
        \<lparr>status_code = 500, body = None\<rparr>)) = None \<and>
   failure_of failing_world 0
        \<lparr>via = 0, http_method = GET, url = ''/devices'', params = Some [(''limit'', PInt 100)],
          json = None\<rparr> =
     Some (HTTPStatusError ''status error''
        \<lparr>via = 0, http_method = GET, url = ''/devices'', params = Some [(''limit'', PInt 100)],
          json = None\<rparr>
        \<lparr>status_code = 500, body = None\<rparr>)"
  using raised_error_outside_taxonomy [OF list_devices_failing]
  by (simp add: failing_world_def calm_world_def)

text \<open>
  The claim as stated fails when the server answers 500 to \<open>list_devices\<close>: the
  caller gets the status error of the transport library, which is not the base kind.
\<close>

theorem raised_error_is_base_kind_counterexample:
  "result_of (perform (ListDevices None None 100) new_client failing_world) =
     Inl (HTTPError (HTTPStatusError ''status error''
        \<lparr>via = 0, http_method = GET, url = ''/devices'', params = Some [(''limit'', PInt 100)],
          json = None\<rparr>
        \<lparr>status_code = 500, body = None\<rparr>)) \<and>
   raised_kind (result_of (perform (ListDevices None None 100) new_client failing_world)) \<noteq> Some Base"
  by (simp only: list_devices_failing) simp

lemma register_device_request:
  "sent (world_of (register_device d n t loc md self w)) =
     sent w @ [client_post (fst (get_http_client self w)) ''/devices/register''
                 (register_payload d n t loc md)]"
  by (simp add: register_device_def split_def Let_def request_checked_sent benign_json_info
      get_http_client_keeps)


lemma register_payload_keys:
  "dict_keys (register_payload d n t loc md) =
     [''device_id'', ''name'', ''device_type''] @
     (if truthy loc then [''location''] else []) @
     (if truthy md then [''metadata''] else [])"
  by (simp add: register_payload_def dict_keys_def dict_set_def Let_def)

section \<open>The registration payload\<close>

text \<open>
  Claim C7. When \<open>register_device\<close> is called without location and metadata, the body
  of the POST consists of exactly the three keys \<open>device_id\<close>, \<open>name\<close> and
  \<open>device_type\<close>. In general the body is the payload built from the arguments, and an
  optional field that is absent has no key in it, so it is not sent as null either.
\<close>

theorem absent_optional_fields_are_omitted:
  "json (last (sent (world_of (register_device device_id name device_type None None self w)))) =
     Some [(''device_id'', PStr device_id), (''name'', PStr name),
           (''device_type'', PStr device_type)] \<and>
   dict_keys (register_payload device_id name device_type None None) =
     [''device_id'', ''name'', ''device_type''] \<and>
   ''location'' \<notin> set (dict_keys (register_payload device_id name device_type None metadata)) \<and>
   dict_get (register_payload device_id name device_type None metadata) ''location'' = None \<and>
   ''metadata'' \<notin> set (dict_keys (register_payload device_id name device_type location None)) \<and>
   dict_get (register_payload device_id name device_type location None) ''metadata'' = None \<and>
   json (last (sent (world_of (register_device device_id name device_type location metadata self w)))) =
     Some (register_payload device_id name device_type location metadata)"
proof -
  have k: "dict_get p k = None" if "k \<notin> set (dict_keys p)" for p k
    using that by (simp add: dict_get_def dict_keys_def map_of_eq_None_iff)
  have l: "''location'' \<notin> set (dict_keys (register_payload device_id name device_type None metadata))"
    by (simp add: register_payload_keys truthy_def)
  have m: "''metadata'' \<notin> set (dict_keys (register_payload device_id name device_type location None))"
    by (simp add: register_payload_keys truthy_def)
  have p: "register_payload device_id name device_type None None =
      [(''device_id'', PStr device_id), (''name'', PStr name), (''device_type'', PStr device_type)]"
    by (simp add: register_payload_def truthy_def)
  show ?thesis
    using l m k [OF l] k [OF m]
    by (simp add: register_device_request client_post_def p dict_keys_def)
qed

section \<open>Importing the package\<close>

text \<open>
  Claim C3. Evaluating exceptions.py stops with \<open>NameError\<close> for \<open>Optional\<close>, the
  name in the signature of the base kind's constructor that nothing binds. The package's
  \<open>__init__\<close> imports from that module, so importing the package fails with the same
  error, and with it every import of a submodule, the client included (client.py by
  itself evaluates). No error of the taxonomy, of whatever kind, can be constructed.
\<close>

theorem taxonomy_cannot_be_constructed:
  "exec_module site_packages exceptions_py = Inl (NameError ''Optional'') \<and>
   import_natureos_sdk = Inl (NameError ''Optional'') \<and>
   import_from_package ''natureos_sdk.client'' = Inl (NameError ''Optional'') \<and>
   construct_error kind message code = Inl (NameError ''Optional'')"
proof -
  have e: "exec_module site_packages exceptions_py = Inl (NameError ''Optional'')"
    by (simp add: exec_module_def exceptions_py_def builtins_def)
  have c: "exec_module site_packages client_py =
      Inr [''__name__'', ''os'', ''logging'', ''Dict'', ''Any'', ''Optional'', ''List'',
           ''datetime'', ''timedelta'', ''httpx'', ''logger'', ''NatureOSClient'']"
    by (simp add: exec_module_def client_py_def builtins_def site_packages_def)
  have p: "import_natureos_sdk = Inl (NameError ''Optional'')"
    by (simp add: import_natureos_sdk_def exec_module_def [of import_submodule] init_py_def
        import_submodule_def e c)
  show ?thesis
    by (simp add: e p import_from_package_def construct_error_def)
qed

lemma dict_get_absent: "k \<notin> set (dict_keys p) \<Longrightarrow> dict_get p k = None"
  by (simp add: dict_get_def dict_keys_def map_of_eq_None_iff)


section \<open>Truthiness of optional arguments\<close>


lemma dict_get_update:
  "dict_get (dict_update d other) k =
     (case map_of (rev other) k of Some v \<Rightarrow> Some v | None \<Rightarrow> dict_get d k)"
  unfolding dict_update_def dict_get_def dict_set_def
proof (induction other arbitrary: d)
  case Nil
  then show ?case by simp
next
  case (Cons a other)
  obtain k' v' where a: "a = (k', v')" by (cases a)
  show ?case
    by (simp add: a Cons.IH update_conv' map_add_def split: option.splits)
qed

lemma map_of_rev_distinct: "distinct (map fst xs) \<Longrightarrow> map_of (rev xs) = map_of xs"
proof (induction xs)
  case Nil
  then show ?case by simp
next
  case (Cons a xs)
  obtain k v where a: "a = (k, v)" by (cases a)
  from Cons.prems a have n: "map_of xs k = None"
    by (simp add: map_of_eq_None_iff)
  from Cons show ?case
    by (auto simp: a n map_add_def fun_eq_iff split: option.splits)
qed

lemma dict_get_update_distinct:
  "distinct (dict_keys other) \<Longrightarrow>
   dict_get (dict_update d other) k =
     (case dict_get other k of Some v \<Rightarrow> Some v | None \<Rightarrow> dict_get d k)"
  using dict_get_update [of d other k]
  by (simp add: dict_get_def dict_keys_def map_of_rev_distinct)

lemma dict_update_nonempty: "d \<noteq> [] \<Longrightarrow> dict_update d other \<noteq> []"
  unfolding dict_update_def dict_set_def
proof (induction other arbitrary: d)
  case Nil
  then show ?case by simp
next
  case (Cons a other)
  obtain k v where a: "a = (k, v)" by (cases a)
  have "AList.update k v d \<noteq> []" using Cons.prems by (cases d) auto
  then show ?case by (simp add: a Cons.IH)
qed

lemma mycobrain_metadata_truthy: "truthy (Some (mycobrain_metadata sn fw md))"
  by (simp add: truthy_def mycobrain_metadata_def Let_def dict_update_nonempty)

lemma mycobrain_request:
  "json (last (sent (world_of (register_mycobrain_device d sn n fw loc md self w)))) =
     Some (register_payload d n ''mycobrain'' loc (Some (mycobrain_metadata sn fw md)))"
  by (simp add: register_mycobrain_device_def register_device_request client_post_def)

lemma mycobrain_payload:
  "dict_get (register_payload d n ''mycobrain'' loc (Some (mycobrain_metadata sn fw md))) ''device_type'' =
     Some (PStr ''mycobrain'')"
  "dict_get (register_payload d n ''mycobrain'' loc (Some (mycobrain_metadata sn fw md))) ''metadata'' =
     Some (PDict (mycobrain_metadata sn fw md))"
  using mycobrain_metadata_truthy [of sn fw md]
  by (simp_all add: register_payload_def dict_get_def dict_set_def Let_def update_conv')

section \<open>Registering a MycoBrain device\<close>

text \<open>
  Claim C1, as amended. The claim says that the three fixed keys of the embedded
  metadata always come from the explicit parameters. The code updates the fixed entries
  with the caller's metadata, so the caller wins on every key, the three fixed ones
  included. What holds: the top-level \<open>device_type\<close> of the registration is
  \<open>mycobrain\<close>; the body carries the merged metadata; each key of the merged metadata has
  the caller's value when the caller's metadata has the key, and otherwise the fixed
  value (serial number and firmware version from the parameters, \<open>device_type\<close>
  \<open>mycobrain\<close>); without caller metadata it is the three fixed entries.
\<close>

theorem mycobrain_metadata_merge:
  assumes "is_dict md"
  shows
   "dict_get (the (json (last (sent (world_of
        (register_mycobrain_device device_id serial_number name firmware_version location
           (Some md) self w)))))) ''device_type'' = Some (PStr ''mycobrain'') \<and>
    dict_get (the (json (last (sent (world_of
        (register_mycobrain_device device_id serial_number name firmware_version location
           (Some md) self w)))))) ''metadata'' =
      Some (PDict (mycobrain_metadata serial_number firmware_version (Some md))) \<and>
    dict_get (mycobrain_metadata serial_number firmware_version (Some md)) k =
      (case dict_get md k of
         Some v \<Rightarrow> Some v
       | None \<Rightarrow> dict_get [(''serial_number'', PStr serial_number),
                            (''firmware_version'', PStr firmware_version),
                            (''device_type'', PStr ''mycobrain'')] k) \<and>
    mycobrain_metadata serial_number firmware_version None =
      [(''serial_number'', PStr serial_number), (''firmware_version'', PStr firmware_version),
       (''device_type'', PStr ''mycobrain'')]"
proof -
  have m: "dict_get (mycobrain_metadata serial_number firmware_version (Some md)) k =
      (case dict_get md k of
         Some v \<Rightarrow> Some v
       | None \<Rightarrow> dict_get [(''serial_number'', PStr serial_number),
                            (''firmware_version'', PStr firmware_version),
                            (''device_type'', PStr ''mycobrain'')] k)"
  proof (cases "md = []")
    case True
    then show ?thesis by (simp add: mycobrain_metadata_def truthy_def dict_get_def)
  next
    case False
    then have "mycobrain_metadata serial_number firmware_version (Some md) =
        dict_update [(''serial_number'', PStr serial_number),
                     (''firmware_version'', PStr firmware_version),
                     (''device_type'', PStr ''mycobrain'')] md"
      by (simp add: mycobrain_metadata_def truthy_def)
    with assms show ?thesis by (simp add: dict_get_update_distinct is_dict_def)
  qed
  have n: "mycobrain_metadata serial_number firmware_version None =
      [(''serial_number'', PStr serial_number), (''firmware_version'', PStr firmware_version),
       (''device_type'', PStr ''mycobrain'')]"
    by (simp add: mycobrain_metadata_def truthy_def)
  show ?thesis
    by (simp only: mycobrain_request option.sel mycobrain_payload m n)
qed

theorem mycobrain_metadata_merge_witness:
  "is_dict [(''site'', PStr ''lab''), (''device_type'', PStr ''sensor'')] \<and>
   dict_get (mycobrain_metadata ''SN-1'' ''1.0''
       (Some [(''site'', PStr ''lab''), (''device_type'', PStr ''sensor'')])) ''device_type'' =
     Some (PStr ''sensor'') \<and>
   dict_get (mycobrain_metadata ''SN-1'' ''1.0''
       (Some [(''site'', PStr ''lab''), (''device_type'', PStr ''sensor'')])) ''serial_number'' =
     Some (PStr ''SN-1'')"
proof -
  have d: "is_dict [(''site'', PStr ''lab''), (''device_type'', PStr ''sensor'')]"
    by (simp add: is_dict_def dict_keys_def)
  from mycobrain_metadata_merge [OF d, of "''dev-1''" "''SN-1''" "''brain''" "''1.0''" None
      new_client calm_world "''device_type''"]
    mycobrain_metadata_merge [OF d, of "''dev-1''" "''SN-1''" "''brain''" "''1.0''" None
      new_client calm_world "''serial_number''"] d
  show ?thesis by (simp add: dict_get_def)
qed

text \<open>
  The claim as stated fails for caller metadata with \<open>device_type\<close> and
  \<open>serial_number\<close> keys: both values of the caller end up in the body.
\<close>

theorem mycobrain_metadata_fixed_keys_counterexample:
  "json (last (sent (world_of
      (register_mycobrain_device ''dev-1'' ''SN-1'' ''brain'' ''1.0'' None
         (Some [(''device_type'', PStr ''sensor''), (''serial_number'', PStr ''other'')])
         new_client calm_world)))) =
     Some [(''device_id'', PStr ''dev-1''), (''name'', PStr ''brain''),
           (''device_type'', PStr ''mycobrain''),
           (''metadata'', PDict [(''serial_number'', PStr ''other''),
                                 (''firmware_version'', PStr ''1.0''),
                                 (''device_type'', PStr ''sensor'')])] \<and>
   dict_get (mycobrain_metadata ''SN-1'' ''1.0''
       (Some [(''device_type'', PStr ''sensor''), (''serial_number'', PStr ''other'')]))
     ''device_type'' \<noteq> Some (PStr ''mycobrain'') \<and>
   dict_get (mycobrain_metadata ''SN-1'' ''1.0''
       (Some [(''device_type'', PStr ''sensor''), (''serial_number'', PStr ''other'')]))
     ''serial_number'' \<noteq> Some (PStr ''SN-1'')"
  by (simp add: mycobrain_request register_payload_def mycobrain_metadata_def truthy_def
      dict_update_def dict_set_def dict_get_def Let_def)

section \<open>Construction\<close>

lemma rstrip_decompose: "\<exists>n. s = rstrip ch s @ replicate n ch"
proof -
  let ?P = "\<lambda>x. x = ch"
  have "rev (takeWhile ?P (rev s) @ dropWhile ?P (rev s)) = rev (rev s)"
    by (simp only: takeWhile_dropWhile_id)
  then have s: "s = rstrip ch s @ rev (takeWhile ?P (rev s))"
    by (simp only: rev_append rev_rev_ident rstrip_def)
  have "takeWhile ?P xs = replicate (length (takeWhile ?P xs)) ch" for xs :: string
    by (induction xs) auto
  then have "rev (takeWhile ?P (rev s)) = replicate (length (takeWhile ?P (rev s))) ch"
    by (metis rev_replicate)
  with s have "s = rstrip ch s @ replicate (length (takeWhile ?P (rev s))) ch" by simp
  then show ?thesis ..
qed

lemma rstrip_last: "rstrip ch s = [] \<or> last (rstrip ch s) \<noteq> ch"
proof (cases "dropWhile (\<lambda>x. x = ch) (rev s) = []")
  case True
  then show ?thesis by (simp add: rstrip_def)
next
  case False
  then have "hd (dropWhile (\<lambda>x. x = ch) (rev s)) \<noteq> ch" by (rule hd_dropWhile)
  with False show ?thesis by (simp add: rstrip_def last_rev)
qed

text \<open>
  Claim C8, as amended. The claim says that the stored base URL is the supplied URL
  with its trailing slashes stripped. That holds for a supplied URL that is not empty:
  the stored URL is what remains of it before its trailing slashes, and does not end
  with a slash. An argument that is not passed is taken from its environment variable,
  and from the literal default when the variable is absent; an empty string passed as
  URL counts as not passed.
\<close>

theorem construction_defaults:
  assumes "u \<noteq> []"
  shows
   "api_url (fst (init (Some u) api_key' tenant_id' timeout' max_retries' config' w)) =
      rstrip CHR ''/'' u \<and>
    (\<exists>n. u = rstrip CHR ''/'' u @ replicate n CHR ''/'') \<and>
    (rstrip CHR ''/'' u = [] \<or> last (rstrip CHR ''/'' u) \<noteq> CHR ''/'') \<and>
    api_url (fst (init None api_key' tenant_id' timeout' max_retries' config' w)) =
      rstrip CHR ''/''
        (case environ w ''NATUREOS_API_URL'' of None \<Rightarrow> ''http://localhost:8002'' | Some v \<Rightarrow> v) \<and>
    api_key (fst (init api_url' None tenant_id' timeout' max_retries' config' w)) =
      (case environ w ''NATUREOS_API_KEY'' of None \<Rightarrow> [] | Some v \<Rightarrow> v) \<and>
    tenant_id (fst (init api_url' api_key' None timeout' max_retries' config' w)) =
      (case environ w ''NATUREOS_TENANT_ID'' of None \<Rightarrow> [] | Some v \<Rightarrow> v) \<and>
    init (Some []) api_key' tenant_id' timeout' max_retries' config' w =
      init None api_key' tenant_id' timeout' max_retries' config' w"
  using assms rstrip_decompose [of u "CHR ''/''"] rstrip_last [of "CHR ''/''" u]
  by (simp add: init_def py_or_def truthy_def getenv_def Let_def)

theorem construction_defaults_witness:
  "''http://api.example//'' \<noteq> [] \<and>
   api_url (fst (init (Some ''http://api.example//'') None None 30 3 None calm_world)) =
     ''http://api.example'' \<and>
   api_url (fst (init None None None 30 3 None calm_world)) = ''http://localhost:8002'' \<and>
   api_key (fst (init None None None 30 3 None calm_world)) = [] \<and>
   tenant_id (fst (init None None None 30 3 None calm_world)) = []"
proof -
  have n: "''http://api.example//'' \<noteq> []" by simp
  from construction_defaults [OF n, of None None 30 3 None calm_world None]
  show ?thesis by (simp add: rstrip_def calm_world_def)
qed

text \<open>
  The claim as stated fails for the empty string as URL: the stored URL is the default,
  not the empty string.
\<close>

theorem stored_url_is_supplied_url_counterexample:
  "api_url (fst (init (Some []) None None 30 3 None calm_world)) = ''http://localhost:8002'' \<and>
   api_url (fst (init (Some []) None None 30 3 None calm_world)) \<noteq> rstrip CHR ''/'' []"
  by (simp add: init_def py_or_def truthy_def getenv_def calm_world_def rstrip_def)

section \<open>The result of listing devices\<close>







section \<open>The transport handle\<close>

lemma open_handles_append:
  "handles w' = handles w @ [nh] \<Longrightarrow>
   open_handles w' = open_handles w @ (if is_closed nh then [] else [length (handles w)])"
proof -
  assume a: "handles w' = handles w @ [nh]"
  have "filter (\<lambda>i. \<not> is_closed ((handles w @ [nh]) ! i)) [0..<length (handles w)] =
        filter (\<lambda>i. \<not> is_closed (handles w ! i)) [0..<length (handles w)]"
    by (rule filter_cong) (simp_all add: nth_append)
  then show ?thesis by (simp add: open_handles_def a)
qed

lemma open_handles_cong: "handles w' = handles w \<Longrightarrow> open_handles w' = open_handles w"
  by (simp add: open_handles_def)

lemma open_handles_aclose:
  "open_handles (aclose h w) = filter (\<lambda>i. i \<noteq> h) (open_handles w)"
proof (cases "h < length (handles w)")
  case True
  have "filter (\<lambda>i. \<not> is_closed ((handles w)[h := (handles w ! h)\<lparr>is_closed := True\<rparr>] ! i))
          [0..<length (handles w)] =
        filter (\<lambda>i. i \<noteq> h \<and> \<not> is_closed (handles w ! i)) [0..<length (handles w)]"
    using True by (intro filter_cong) (auto simp: nth_list_update split: if_splits)
  with True show ?thesis by (simp add: open_handles_def aclose_def conj_commute)
next
  case False
  have "filter (\<lambda>i. i \<noteq> h) (open_handles w) = open_handles w"
    unfolding open_handles_def using False by (simp add: filter_filter) (intro filter_cong; auto)
  with False show ?thesis by (simp add: aclose_def)
qed


lemma perform_client_handles:
  assumes "c \<noteq> Close"
  shows "client_of (perform c self w) = fst (snd (get_http_client self w))"
    and "handles (world_of (perform c self w)) = handles (snd (snd (get_http_client self w)))"
  using shaped_perform [OF assms, of self w]
  unfolding shaped_def split_def Let_def
  by (auto simp: request_checked_client request_checked_handles)

lemma handle_inv_perform:
  assumes "handle_inv self w"
  shows "handle_inv (client_of (perform c self w)) (world_of (perform c self w))"
proof (cases "c = Close")
  case True
  show ?thesis
  proof (cases "http_client self")
    case None
    with assms True show ?thesis by (simp add: close_def)
  next
    case (Some h)
    with assms True show ?thesis
      by (simp add: close_def handle_inv_def open_handles_aclose)
  qed
next
  case False
  note pc = perform_client_handles [OF False, of self w]
  show ?thesis
  proof (cases "http_client self")
    case None
    from assms None have o: "open_handles w = []" by (simp add: handle_inv_def)
    have h: "handles (world_of (perform c self w)) = handles w @
        [\<lparr>base_url = api_url self, headers = build_headers self, timeout_cfg = timeout self,
          follow_redirects = True, is_closed = False\<rparr>]"
      by (simp add: pc get_http_client_None [OF None])
    show ?thesis
      unfolding handle_inv_def
      by (simp add: open_handles_append [OF h] o) (simp add: pc get_http_client_None [OF None])
  next
    case (Some h)
    have "handles (world_of (perform c self w)) = handles w"
      by (simp add: pc get_http_client_Some [OF Some])
    from open_handles_cong [OF this] assms Some show ?thesis
      by (simp add: handle_inv_def pc get_http_client_Some [OF Some])
  qed
qed





lemma handle_inv_close:
  "handle_inv self w \<Longrightarrow> handle_inv (client_of (close self w)) (world_of (close self w))"
  using handle_inv_perform [of self w Close] by simp






section \<open>The time window of sensor data\<close>























lemma sensor_base_fresh:
  "dict_set (dict_set ([(''limit'', PInt lim)] @
       (if truthy st then [(''sensor_type'', PStr (the st))] else []))
       ''start_time'' s) ''end_time'' e =
   [(''limit'', PInt lim)] @ (if truthy st then [(''sensor_type'', PStr (the st))] else []) @
   [(''start_time'', s), (''end_time'', e)]"
  by (simp add: dict_set_def)



lemma reading_get_http_client: "reading (snd (snd (get_http_client self w))) n = reading w n"
  by (simp add: reading_def get_http_client_keeps)








end
